theory Spec2Isabelle
  imports Complex_Main
begin

section \<open>JavaScript strings\<close>

text \<open>
  A JavaScript string is a sequence of UTF-16 code units. Texts that travel through the
  program (replies, bodies, names, messages) are modelled as \<open>string\<close>, one \<open>char\<close> per
  code unit, which covers the code units below 256. The strings inside a parsed JSON value
  are kept as lists of code units (\<open>nat\<close>), because a \<open>\uXXXX\<close> escape can denote any of
  them.
\<close>

type_synonym code_units = "nat list"

definition js :: "string \<Rightarrow> code_units" where
  "js s = map of_char s"

definition is_js_ws :: "char \<Rightarrow> bool" where
  \<comment> \<open>WhiteSpace and LineTerminator of ECMAScript, below 256: TAB, LF, VT, FF, CR, SP, NBSP\<close>
  "is_js_ws c = ((of_char c :: nat) \<in> {9, 10, 11, 12, 13, 32, 160})"

definition trim :: "string \<Rightarrow> string" where
  "trim s = rev (dropWhile is_js_ws (rev (dropWhile is_js_ws s)))"

definition startsWith :: "string \<Rightarrow> string \<Rightarrow> bool" where
  "startsWith s p = (take (length p) s = p)"

definition endsWith :: "string \<Rightarrow> string \<Rightarrow> bool" where
  "endsWith s p = (length p \<le> length s \<and> drop (length s - length p) s = p)"

definition replace_at_start :: "string \<Rightarrow> string \<Rightarrow> string" where
  \<comment> \<open>\<open>s.replace(/^p/, '')\<close> for a literal \<open>p\<close>: without the \<open>m\<close> flag \<open>^\<close> is the start of the text\<close>
  "replace_at_start p s = (if startsWith s p then drop (length p) s else s)"

definition replace_at_end :: "string \<Rightarrow> string \<Rightarrow> string" where
  \<comment> \<open>\<open>s.replace(/p$/, '')\<close> for a literal \<open>p\<close>: without the \<open>m\<close> flag \<open>$\<close> is the end of the text\<close>
  "replace_at_end p s = (if endsWith s p then take (length s - length p) s else s)"

fun show_nat :: "nat \<Rightarrow> string" where
  "show_nat n =
     (if n < 10 then [char_of (48 + n)]
      else show_nat (n div 10) @ [char_of (48 + n mod 10)])"

declare show_nat.simps [simp del]

section \<open>JSON values and \<open>JSON.parse\<close>\<close>

text \<open>
  \<open>JSON.parse\<close> is a builtin of the platform; it is modelled after the JSON grammar of
  ECMA-404 as a lexer followed by a recursive-descent parser. Numbers are kept as exact
  rationals (the rounding to binary64 is not modelled). An object is the list of its
  members in the order of the text; reading a property takes the last member of that name,
  as a later duplicate overwrites an earlier one.
\<close>

datatype json =
    JNull
  | JBool bool
  | JNumber rat
  | JString code_units
  | JArray "json list"
  | JObject "(code_units \<times> json) list"

datatype token =
    TLBrace | TRBrace | TLBracket | TRBracket | TColon | TComma
  | TTrue | TFalse | TNull
  | TStr code_units
  | TNum rat

definition is_json_ws :: "char \<Rightarrow> bool" where
  "is_json_ws c = ((of_char c :: nat) \<in> {9, 10, 13, 32})"

definition is_digit :: "char \<Rightarrow> bool" where
  "is_digit c = (48 \<le> (of_char c :: nat) \<and> (of_char c :: nat) \<le> 57)"

definition digit_val :: "char \<Rightarrow> nat" where
  "digit_val c = of_char c - 48"

definition digits_val :: "string \<Rightarrow> nat" where
  "digits_val ds = foldl (\<lambda>n c. 10 * n + digit_val c) 0 ds"

definition hex_val :: "char \<Rightarrow> nat option" where
  "hex_val c =
     (let n = (of_char c :: nat) in
      if 48 \<le> n \<and> n \<le> 57 then Some (n - 48)
      else if 65 \<le> n \<and> n \<le> 70 then Some (n - 55)
      else if 97 \<le> n \<and> n \<le> 102 then Some (n - 87)
      else None)"

definition unescape :: "char \<Rightarrow> nat option" where
  \<comment> \<open>the character after a backslash, other than \<open>u\<close>\<close>
  "unescape c =
     (if c = CHR 0x22 then Some 34
      else if c = CHR 0x5C then Some 92
      else if c = CHR ''/'' then Some 47
      else if c = CHR ''b'' then Some 8
      else if c = CHR ''f'' then Some 12
      else if c = CHR ''n'' then Some 10
      else if c = CHR ''r'' then Some 13
      else if c = CHR ''t'' then Some 9
      else None)"

text \<open>The text after an opening quote: the string's code units and what follows the closing quote.\<close>

fun lex_string :: "string \<Rightarrow> (code_units \<times> string) option" where
  "lex_string [] = None"
| "lex_string (c # cs) =
     (if c = CHR 0x22 then Some ([], cs)
      else if c = CHR 0x5C then
        (case cs of
           [] \<Rightarrow> None
         | e # es \<Rightarrow>
             if e = CHR ''u'' then
               (case es of
                  h1 # h2 # h3 # h4 # rest \<Rightarrow>
                    (case (hex_val h1, hex_val h2, hex_val h3, hex_val h4) of
                       (Some a, Some b, Some c, Some d) \<Rightarrow>
                         (case lex_string rest of
                            None \<Rightarrow> None
                          | Some (s, r) \<Rightarrow> Some ((((a * 16 + b) * 16 + c) * 16 + d) # s, r))
                     | _ \<Rightarrow> None)
                | _ \<Rightarrow> None)
             else
               (case unescape e of
                  None \<Rightarrow> None
                | Some u \<Rightarrow>
                    (case lex_string es of
                       None \<Rightarrow> None
                     | Some (s, r) \<Rightarrow> Some (u # s, r))))
      else if (of_char c :: nat) < 32 then None
      else
        (case lex_string cs of
           None \<Rightarrow> None
         | Some (s, r) \<Rightarrow> Some (of_char c # s, r)))"

text \<open>
  A number: \<open>-? (0 | [1-9][0-9]*) (. [0-9]+)? ([eE] [+-]? [0-9]+)?\<close>, with its value and the
  text that follows it.
\<close>

definition lex_int_part :: "string \<Rightarrow> (string \<times> string) option" where
  "lex_int_part cs =
     (case cs of
        [] \<Rightarrow> None
      | c # r \<Rightarrow>
          if c = CHR ''0'' then Some ([c], r)
          else if is_digit c then Some (takeWhile is_digit cs, dropWhile is_digit cs)
          else None)"

definition lex_frac_part :: "string \<Rightarrow> (string \<times> string) option" where
  "lex_frac_part cs =
     (case cs of
        c # r \<Rightarrow>
          if c = CHR ''.'' then
            (if takeWhile is_digit r = [] then None
             else Some (takeWhile is_digit r, dropWhile is_digit r))
          else Some ([], cs)
      | [] \<Rightarrow> Some ([], cs))"

definition lex_exp_part :: "string \<Rightarrow> (int \<times> string) option" where
  "lex_exp_part cs =
     (case cs of
        c # r \<Rightarrow>
          if c = CHR ''e'' \<or> c = CHR ''E'' then
            (let (neg, r') =
                   (case r of
                      s # r2 \<Rightarrow>
                        if s = CHR ''-'' then (True, r2)
                        else if s = CHR ''+'' then (False, r2)
                        else (False, r)
                    | [] \<Rightarrow> (False, r))
             in if takeWhile is_digit r' = [] then None
                else Some ((if neg then - int (digits_val (takeWhile is_digit r'))
                            else int (digits_val (takeWhile is_digit r'))),
                           dropWhile is_digit r'))
          else Some (0, cs)
      | [] \<Rightarrow> Some (0, cs))"

definition number_value :: "bool \<Rightarrow> string \<Rightarrow> string \<Rightarrow> int \<Rightarrow> rat" where
  "number_value neg ip fp ex =
     (let m = of_nat (digits_val (ip @ fp)) :: rat;
          e = ex - int (length fp);
          v = (if 0 \<le> e then m * 10 ^ nat e else m / 10 ^ nat (- e))
      in if neg then - v else v)"

definition lex_number :: "string \<Rightarrow> (rat \<times> string) option" where
  "lex_number cs =
     (let (neg, cs1) =
            (case cs of
               c # r \<Rightarrow> if c = CHR ''-'' then (True, r) else (False, cs)
             | [] \<Rightarrow> (False, cs))
      in case lex_int_part cs1 of
           None \<Rightarrow> None
         | Some (ip, cs2) \<Rightarrow>
             (case lex_frac_part cs2 of
                None \<Rightarrow> None
              | Some (fp, cs3) \<Rightarrow>
                  (case lex_exp_part cs3 of
                     None \<Rightarrow> None
                   | Some (ex, cs4) \<Rightarrow> Some (number_value neg ip fp ex, cs4))))"

lemma lex_string_shorter: "lex_string cs = Some (s, r) \<Longrightarrow> length r < length cs"
proof (induction cs arbitrary: s r rule: lex_string.induct)
  case 1 then show ?case by simp
next
  case (2 c cs)
  then show ?case
    by (fastforce split: if_splits list.splits option.splits)
qed

lemma lex_int_part_shorter: "lex_int_part cs = Some (ip, r) \<Longrightarrow> length r < length cs"
  by (auto simp: lex_int_part_def less_Suc_eq_le length_dropWhile_le split: list.splits if_splits)

lemma lex_frac_part_shorter: "lex_frac_part cs = Some (fp, r) \<Longrightarrow> length r \<le> length cs"
  by (auto simp: lex_frac_part_def le_Suc_eq length_dropWhile_le split: list.splits if_splits)

lemma lex_exp_part_shorter: "lex_exp_part cs = Some (ex, r) \<Longrightarrow> length r \<le> length cs"
  by (auto simp: lex_exp_part_def Let_def le_SucI length_dropWhile_le split: list.splits if_splits)

lemma lex_number_shorter: "lex_number cs = Some (v, r) \<Longrightarrow> length r < length cs"
  by (auto simp: lex_number_def split: list.splits if_splits option.splits
      dest!: lex_int_part_shorter lex_frac_part_shorter lex_exp_part_shorter)

text \<open>The token that starts with the character \<open>c\<close>, and the text after the token.\<close>

definition next_token :: "char \<Rightarrow> string \<Rightarrow> (token \<times> string) option" where
  "next_token c cs =
     (if c = CHR ''{'' then Some (TLBrace, cs)
      else if c = CHR ''}'' then Some (TRBrace, cs)
      else if c = CHR ''['' then Some (TLBracket, cs)
      else if c = CHR '']'' then Some (TRBracket, cs)
      else if c = CHR '':'' then Some (TColon, cs)
      else if c = CHR '','' then Some (TComma, cs)
      else if c = CHR 0x22 then
        (case lex_string cs of
           None \<Rightarrow> None
         | Some (s, rest) \<Rightarrow> Some (TStr s, rest))
      else if c = CHR ''-'' \<or> is_digit c then
        (case lex_number (c # cs) of
           None \<Rightarrow> None
         | Some (v, rest) \<Rightarrow> Some (TNum v, rest))
      else if startsWith (c # cs) ''true'' then Some (TTrue, drop 3 cs)
      else if startsWith (c # cs) ''false'' then Some (TFalse, drop 4 cs)
      else if startsWith (c # cs) ''null'' then Some (TNull, drop 3 cs)
      else None)"

lemma next_token_shorter: "next_token c cs = Some (t, rest) \<Longrightarrow> length rest \<le> length cs"
proof -
  assume h: "next_token c cs = Some (t, rest)"
  have "(\<exists>s. lex_string cs = Some (s, rest)) \<or> (\<exists>v. lex_number (c # cs) = Some (v, rest))
      \<or> rest = cs \<or> rest = drop 3 cs \<or> rest = drop 4 cs"
    using h unfolding next_token_def
    by (simp split: if_split_asm option.split_asm prod.split_asm)
  then show ?thesis
    using lex_string_shorter lex_number_shorter by fastforce
qed

text \<open>The lexer: the tokens of a text, or \<open>None\<close> where no token starts.\<close>

function lex :: "string \<Rightarrow> token list option" where
  "lex [] = Some []"
| "lex (c # cs) =
     (if is_json_ws c then lex cs
      else
        (case next_token c cs of
           None \<Rightarrow> None
         | Some (t, rest) \<Rightarrow>
             (case lex rest of
                None \<Rightarrow> None
              | Some ts \<Rightarrow> Some (t # ts))))"
  by pat_completeness auto
termination
  by (relation "measure length") (auto dest: next_token_shorter)

text \<open>
  The parser. An element list or member list continues after a comma on the tokens that
  the value before it left over; the test \<open>length r' < length ts\<close> states that these are
  fewer (lemma \<open>parse_shorter\<close> shows that it always holds).
\<close>

function parse_value :: "token list \<Rightarrow> (json \<times> token list) option"
  and parse_elements :: "token list \<Rightarrow> (json list \<times> token list) option"
  and parse_members :: "token list \<Rightarrow> ((code_units \<times> json) list \<times> token list) option"
where
  "parse_value [] = None"
| "parse_value (t # ts) =
     (case t of
        TNull \<Rightarrow> Some (JNull, ts)
      | TTrue \<Rightarrow> Some (JBool True, ts)
      | TFalse \<Rightarrow> Some (JBool False, ts)
      | TStr s \<Rightarrow> Some (JString s, ts)
      | TNum n \<Rightarrow> Some (JNumber n, ts)
      | TLBracket \<Rightarrow>
          (case ts of
             TRBracket # r \<Rightarrow> Some (JArray [], r)
           | _ \<Rightarrow>
               (case parse_elements ts of
                  None \<Rightarrow> None
                | Some (vs, r) \<Rightarrow> Some (JArray vs, r)))
      | TLBrace \<Rightarrow>
          (case ts of
             TRBrace # r \<Rightarrow> Some (JObject [], r)
           | _ \<Rightarrow>
               (case parse_members ts of
                  None \<Rightarrow> None
                | Some (ms, r) \<Rightarrow> Some (JObject ms, r)))
      | _ \<Rightarrow> None)"
| "parse_elements ts =
     (case parse_value ts of
        None \<Rightarrow> None
      | Some (v, r) \<Rightarrow>
          (case r of
             TRBracket # r' \<Rightarrow> Some ([v], r')
           | TComma # r' \<Rightarrow>
               if length r' < length ts then
                 (case parse_elements r' of
                    None \<Rightarrow> None
                  | Some (vs, r'') \<Rightarrow> Some (v # vs, r''))
               else None
           | _ \<Rightarrow> None))"
| "parse_members ts =
     (case ts of
        TStr k # TColon # ts' \<Rightarrow>
          (case parse_value ts' of
             None \<Rightarrow> None
           | Some (v, r) \<Rightarrow>
               (case r of
                  TRBrace # r' \<Rightarrow> Some ([(k, v)], r')
                | TComma # r' \<Rightarrow>
                    if length r' < length ts then
                      (case parse_members r' of
                         None \<Rightarrow> None
                       | Some (ms, r'') \<Rightarrow> Some ((k, v) # ms, r''))
                    else None
                | _ \<Rightarrow> None))
      | _ \<Rightarrow> None)"
  by pat_completeness auto
termination
  by (relation "measure (\<lambda>x. case x of
          Inl ts \<Rightarrow> 2 * length ts
        | Inr (Inl ts) \<Rightarrow> 2 * length ts + 1
        | Inr (Inr ts) \<Rightarrow> 2 * length ts + 1)") auto

declare parse_elements.simps [simp del] parse_members.simps [simp del]

text \<open>The tokens left over by the parser are fewer than the tokens it was given.\<close>

lemma parse_shorter_all:
  "(\<forall>v r. parse_value ts = Some (v, r) \<longrightarrow> length r < length ts)
   \<and> (\<forall>vs r. parse_elements ts = Some (vs, r) \<longrightarrow> length r < length ts)
   \<and> (\<forall>ms r. parse_members ts = Some (ms, r) \<longrightarrow> length r < length ts)"
proof (induction ts rule: length_induct)
  case (1 ts)
  have E: "parse_elements us = Some (vs, r) \<Longrightarrow> length us < length ts \<longrightarrow> length r < length us"
    for us vs r using 1 by blast
  have M: "parse_members us = Some (ms, r) \<Longrightarrow> length us < length ts \<longrightarrow> length r < length us"
    for us ms r using 1 by blast
  have V': "parse_value us = Some (v, r) \<Longrightarrow> length us < length ts \<longrightarrow> length r < length us"
    for us v r using 1 by blast
  have V: "length r < length ts" if "parse_value ts = Some (v, r)" for v r
  proof (cases ts)
    case Nil
    with that show ?thesis by simp
  next
    case (Cons t us)
    with that show ?thesis
      by (cases t) (auto split: list.splits option.splits token.splits dest!: E M)
  qed
  have EL: "length r < length ts" if "parse_elements ts = Some (vs, r)" for vs r
  proof -
    from that obtain v r0 where pv: "parse_value ts = Some (v, r0)"
      and rest: "r0 = TRBracket # r \<or>
                 (\<exists>r' vs'. r0 = TComma # r' \<and> parse_elements r' = Some (vs', r))"
      by (subst (asm) parse_elements.simps)
         (auto split: option.splits list.splits token.splits if_splits)
    from V [OF pv] have l0: "length r0 < length ts" .
    from rest show ?thesis
    proof
      assume "r0 = TRBracket # r"
      with l0 show ?thesis by simp
    next
      assume "\<exists>r' vs'. r0 = TComma # r' \<and> parse_elements r' = Some (vs', r)"
      then obtain r' vs' where c: "r0 = TComma # r'" and p: "parse_elements r' = Some (vs', r)"
        by blast
      from c l0 have "length r' < length ts" by simp
      with E [OF p] c l0 show ?thesis by simp
    qed
  qed
  have ME: "length r < length ts" if "parse_members ts = Some (ms, r)" for ms r
  proof -
    from that obtain k us v r0 where ts: "ts = TStr k # TColon # us"
      and pv: "parse_value us = Some (v, r0)"
      and rest: "r0 = TRBrace # r \<or>
                 (\<exists>r' ms'. r0 = TComma # r' \<and> parse_members r' = Some (ms', r))"
      by (subst (asm) parse_members.simps)
         (auto split: option.splits list.splits token.splits if_splits)
    from V' [OF pv] ts have l0: "length r0 < length us" by simp
    from rest show ?thesis
    proof
      assume "r0 = TRBrace # r"
      with l0 ts show ?thesis by simp
    next
      assume "\<exists>r' ms'. r0 = TComma # r' \<and> parse_members r' = Some (ms', r)"
      then obtain r' ms' where c: "r0 = TComma # r'" and p: "parse_members r' = Some (ms', r)"
        by blast
      from c l0 ts have "length r' < length ts" by simp
      with M [OF p] c l0 ts show ?thesis by simp
    qed
  qed
  from V EL ME show ?case by blast
qed

lemma parse_shorter:
  "parse_value ts = Some (v, r) \<Longrightarrow> length r < length ts"
  using parse_shorter_all by blast

text \<open>Hence the length tests can be left out of the equations of the parser.\<close>

lemma parse_elements_eq:
  "parse_elements ts =
     (case parse_value ts of
        None \<Rightarrow> None
      | Some (v, r) \<Rightarrow>
          (case r of
             TRBracket # r' \<Rightarrow> Some ([v], r')
           | TComma # r' \<Rightarrow>
               (case parse_elements r' of
                  None \<Rightarrow> None
                | Some (vs, r'') \<Rightarrow> Some (v # vs, r''))
           | _ \<Rightarrow> None))"
  by (subst parse_elements.simps)
     (auto split: option.splits list.splits token.splits dest: parse_shorter)

lemma parse_members_eq:
  "parse_members ts =
     (case ts of
        TStr k # TColon # ts' \<Rightarrow>
          (case parse_value ts' of
             None \<Rightarrow> None
           | Some (v, r) \<Rightarrow>
               (case r of
                  TRBrace # r' \<Rightarrow> Some ([(k, v)], r')
                | TComma # r' \<Rightarrow>
                    (case parse_members r' of
                       None \<Rightarrow> None
                     | Some (ms, r'') \<Rightarrow> Some ((k, v) # ms, r''))
                | _ \<Rightarrow> None))
      | _ \<Rightarrow> None)"
  by (subst parse_members.simps)
     (auto split: option.splits list.splits token.splits dest: parse_shorter)

definition JSON_parse :: "string \<Rightarrow> json option" where
  \<comment> \<open>\<open>None\<close> is the \<open>SyntaxError\<close> that \<open>JSON.parse\<close> throws\<close>
  "JSON_parse text =
     (case lex text of
        None \<Rightarrow> None
      | Some ts \<Rightarrow>
          (case parse_value ts of
             Some (v, []) \<Rightarrow> Some v
           | _ \<Rightarrow> None))"

text \<open>
  Reading the property \<open>k\<close> of a parsed value other than \<open>null\<close>; \<open>None\<close> is \<open>undefined\<close>.
  Only the names \<open>success\<close>, \<open>error\<close> and \<open>result\<close> are read by the program, and no
  array, string, number or boolean has a property of these names.
\<close>

definition get_prop :: "json \<Rightarrow> string \<Rightarrow> json option" where
  "get_prop v k = (case v of JObject ms \<Rightarrow> map_of (rev ms) (js k) | _ \<Rightarrow> None)"

fun truthy :: "json option \<Rightarrow> bool" where
  "truthy None = False"
| "truthy (Some JNull) = False"
| "truthy (Some (JBool b)) = b"
| "truthy (Some (JNumber n)) = (n \<noteq> 0)"
| "truthy (Some (JString s)) = (s \<noteq> [])"
| "truthy (Some (JArray vs)) = True"
| "truthy (Some (JObject ms)) = True"

section \<open>The platform\<close>

text \<open>
  What the JavaScript engine contributes to an error value: the message of the
  \<open>SyntaxError\<close> that \<open>JSON.parse\<close> throws on a text, the message of the \<open>TypeError\<close> of
  a failing property access or call (named by the expression that fails), and the stack
  trace attached to an error with a given message.
\<close>

record platform =
  syntax_error_message :: "string \<Rightarrow> string"
  type_error_message :: "string \<Rightarrow> string"
  stack_trace :: "string \<Rightarrow> string option"

record js_error =
  message :: string
  stack :: "string option"

definition new_Error :: "platform \<Rightarrow> string \<Rightarrow> js_error" where
  "new_Error p msg = \<lparr>message = msg, stack = stack_trace p msg\<rparr>"

definition TypeError :: "platform \<Rightarrow> string \<Rightarrow> js_error" where
  "TypeError p what = new_Error p (type_error_message p what)"

definition SyntaxError :: "platform \<Rightarrow> string \<Rightarrow> js_error" where
  "SyntaxError p text = new_Error p (syntax_error_message p text)"

record File =
  name :: string
  type :: string
  bytes :: "nat list"

section \<open>The relay endpoint (\<open>netlify/functions/validate-document.ts\<close>)\<close>

text \<open>
  A request is its method and what \<open>await req.formData()\<close> gives: the entries of the
  form, or the error it rejects with when the body is not a form. An entry is a string or
  a file. The environment holds the two variables the handler reads.
\<close>

datatype form_entry = FormString string | FormFile File

datatype form_body = NotAForm js_error | Form "(string \<times> form_entry) list"

record Request =
  "method" :: string
  formData :: form_body

record env =
  ANTHROPIC_API_KEY :: "string option"
  LAUNCHDARKLY_CLIENT_SIDE_ID :: "string option"

text \<open>
  The two remote services. \<open>launchdarkly\<close> is the outcome of initialising the flag client
  with a client-side id, reading \<open>enableEnhancedValidation\<close> and closing it.
  \<open>messages_create\<close> is the outcome of the one call to the inference API, for an API key
  and a document (its media type and bytes; the base64 text of the bytes, the model
  identifier, the token budget and the two prompts are fixed by these): the error it
  throws, or the message it returns.
\<close>

datatype content_block = TextBlock string | OtherBlock string

record Usage =
  input_tokens :: nat
  output_tokens :: nat

record Message =
  content :: "content_block list"
  usage :: Usage

record services =
  launchdarkly :: "string \<Rightarrow> js_error + bool"
  messages_create :: "string \<Rightarrow> File \<Rightarrow> js_error + Message"

record Response =
  http_status :: nat
  headers :: "(string \<times> string) list"
  body :: json

definition headers_const :: "(string \<times> string) list" where
  "headers_const =
     [(''Access-Control-Allow-Origin'', ''*''),
      (''Access-Control-Allow-Headers'', ''Content-Type''),
      (''Access-Control-Allow-Methods'', ''POST, OPTIONS''),
      (''Content-Type'', ''application/json'')]"

definition LF :: char where
  "LF = CHR 0x0A"

definition fence_json :: string where
  "fence_json = ''```json''"

definition fence :: string where
  "fence = ''```''"

definition cleanedText :: "string \<Rightarrow> string" where
  \<comment> \<open>Strip markdown code blocks if present\<close>
  "cleanedText responseText =
     (let t = trim responseText in
      if startsWith t fence_json then
        replace_at_end (LF # fence) (replace_at_start (fence_json @ [LF]) t)
      else if startsWith t fence then
        replace_at_end (LF # fence) (replace_at_start (fence @ [LF]) t)
      else t)"

definition parse_result :: "string \<Rightarrow> json" where
  \<comment> \<open>\<open>try { result = JSON.parse(cleanedText) } catch (parseError) { result = {...} }\<close>\<close>
  "parse_result cleaned =
     (case JSON_parse cleaned of
        Some v \<Rightarrow> v
      | None \<Rightarrow>
          JObject [(js ''rawResponse'', JString (js cleaned)),
                   (js ''parseError'', JString (js ''Could not parse JSON response''))])"

definition enhancedValidationEnabled :: "services \<Rightarrow> env \<Rightarrow> bool" where
  \<comment> \<open>the optional feature flag; an error of the flag service is caught and logged\<close>
  "enhancedValidationEnabled sv e =
     (case LAUNCHDARKLY_CLIENT_SIDE_ID e of
        None \<Rightarrow> False
      | Some cid \<Rightarrow>
          if cid = [] then False
          else (case launchdarkly sv cid of Inl ldError \<Rightarrow> False | Inr b \<Rightarrow> b))"

definition respond :: "nat \<Rightarrow> json \<Rightarrow> Response" where
  \<comment> \<open>\<open>new Response(JSON.stringify(v), { status, headers })\<close>; the body is kept as the value\<close>
  "respond st v = \<lparr>http_status = st, headers = headers_const, body = v\<rparr>"

definition no_file_response :: Response where
  "no_file_response =
     respond 400 (JObject [(js ''success'', JBool False),
                           (js ''error'', JString (js ''No file provided''))])"

definition success_response :: "json \<Rightarrow> Usage \<Rightarrow> Response" where
  "success_response result u =
     respond 200
       (JObject
          [(js ''success'', JBool True),
           (js ''result'', result),
           (js ''usage'',
            JObject [(js ''inputTokens'', JNumber (of_nat (input_tokens u))),
                     (js ''outputTokens'', JNumber (of_nat (output_tokens u)))])])"

definition responseText :: "content_block list \<Rightarrow> string option" where
  \<comment> \<open>\<open>message.content[0].type === "text" ? message.content[0].text : ""\<close>;
      \<open>None\<close> where \<open>message.content[0]\<close> is \<open>undefined\<close> and reading its \<open>type\<close> throws\<close>
  "responseText blocks =
     (case blocks of
        [] \<Rightarrow> None
      | TextBlock t # bs \<Rightarrow> Some t
      | OtherBlock ty # bs \<Rightarrow> Some [])"

text \<open>
  The \<open>try\<close> block of the handler: \<open>Inl\<close> is the error thrown out of it, \<open>Inr\<close> the
  response returned from it. The value of \<open>enhancedValidationEnabled\<close> is computed and not
  used afterwards, as in the source.
\<close>

definition process_file :: "platform \<Rightarrow> services \<Rightarrow> string \<Rightarrow> File \<Rightarrow> js_error + Response" where
  \<comment> \<open>from \<open>file.arrayBuffer()\<close> to the response with status 200\<close>
  "process_file p sv apiKey f =
     (case messages_create sv apiKey f of
        Inl err \<Rightarrow> Inl err
      | Inr msg \<Rightarrow>
          (case responseText (content msg) of
             None \<Rightarrow> Inl (TypeError p ''message.content[0].type'')
           | Some t \<Rightarrow> Inr (success_response (parse_result (cleanedText t)) (usage msg))))"

definition try_block :: "platform \<Rightarrow> services \<Rightarrow> env \<Rightarrow> Request \<Rightarrow> js_error + Response" where
  "try_block p sv e req =
     (case ANTHROPIC_API_KEY e of
        None \<Rightarrow> Inl (new_Error p ''ANTHROPIC_API_KEY not configured'')
      | Some apiKey \<Rightarrow>
          if apiKey = [] then Inl (new_Error p ''ANTHROPIC_API_KEY not configured'')
          else
            let enhanced = enhancedValidationEnabled sv e in
            (case formData req of
               NotAForm err \<Rightarrow> Inl err
             | Form entries \<Rightarrow>
                 (case map_of entries ''file'' of
                    None \<Rightarrow> Inr no_file_response
                  | Some (FormString s) \<Rightarrow>
                      if s = [] then Inr no_file_response
                      else Inl (TypeError p ''file.arrayBuffer()'')
                  | Some (FormFile f) \<Rightarrow> process_file p sv apiKey f)))"

definition error_body :: "js_error \<Rightarrow> json" where
  \<comment> \<open>\<open>{success: false, error: error.message || "Internal server error", details: error.stack}\<close>;
      \<open>JSON.stringify\<close> leaves out a member whose value is \<open>undefined\<close>\<close>
  "error_body err =
     JObject
       ([(js ''success'', JBool False),
         (js ''error'', JString (js (if message err = [] then ''Internal server error'' else message err)))]
        @ (case stack err of None \<Rightarrow> [] | Some tr \<Rightarrow> [(js ''details'', JString (js tr))]))"

definition validate_document :: "platform \<Rightarrow> services \<Rightarrow> env \<Rightarrow> Request \<Rightarrow> Response" where
  "validate_document p sv e req =
     (if method req = ''OPTIONS'' then respond 200 (JObject [(js ''ok'', JBool True)])
      else if method req \<noteq> ''POST'' then
        respond 405 (JObject [(js ''success'', JBool False),
                              (js ''error'', JString (js ''Method not allowed''))])
      else
        (case try_block p sv e req of
           Inr response \<Rightarrow> response
         | Inl err \<Rightarrow> respond 500 (error_body err)))"

section \<open>The upload component (\<open>src/components/FileUpload.tsx\<close>)\<close>

text \<open>
  An entry of \<open>results\<close>: \<open>{fileName, status: 'success', result}\<close> or
  \<open>{fileName, status: 'error', error}\<close>; a member that the object does not have is \<open>None\<close>.
  The member \<open>error\<close> is named \<open>outcome_error\<close> here, apart from the \<open>error\<close> of
  \<open>UploadState\<close>.
\<close>

record FileOutcome =
  fileName :: string
  status :: string
  result :: "json option"
  outcome_error :: "json option"

record UploadState =
  uploading :: bool
  error :: "string option"
  results :: "FileOutcome list"
  currentFile :: nat
  totalFiles :: nat

text \<open>
  The state of the component: the three \<open>useState\<close> cells and the value of the file input
  behind \<open>fileInputRef\<close> (\<open>None\<close> while \<open>fileInputRef.current\<close> is \<open>null\<close>).
\<close>

record FileUpload =
  files :: "File list"
  dragActive :: bool
  state :: UploadState
  fileInputRef :: "string option"

definition initial_state :: UploadState where
  "initial_state =
     \<lparr>uploading = False, error = None, results = [], currentFile = 0, totalFiles = 0\<rparr>"

definition initial_component :: FileUpload where
  "initial_component =
     \<lparr>files = [], dragActive = False, state = initial_state, fileInputRef = Some []\<rparr>"

definition pdf_only_state :: UploadState where
  "pdf_only_state =
     \<lparr>uploading = False, error = Some ''Please upload PDF files only'', results = [],
      currentFile = 0, totalFiles = 0\<rparr>"

definition is_pdf :: "File \<Rightarrow> bool" where
  "is_pdf f = (type f = ''application/pdf'')"

definition handleDrag :: "string \<Rightarrow> FileUpload \<Rightarrow> FileUpload" where
  "handleDrag event_type c =
     c\<lparr>dragActive := (event_type = ''dragenter'' \<or> event_type = ''dragover'')\<rparr>"

definition handleDrop :: "File list \<Rightarrow> FileUpload \<Rightarrow> FileUpload" where
  "handleDrop dataTransfer_files c =
     (let droppedFiles = filter is_pdf dataTransfer_files in
      if length droppedFiles > 0 then
        c\<lparr>dragActive := False, files := droppedFiles, state := initial_state\<rparr>
      else c\<lparr>dragActive := False, state := pdf_only_state\<rparr>)"

definition handleFileChange :: "File list \<Rightarrow> FileUpload \<Rightarrow> FileUpload" where
  "handleFileChange target_files c =
     (let selectedFiles = filter is_pdf target_files in
      if length selectedFiles > 0 then c\<lparr>files := selectedFiles, state := initial_state\<rparr>
      else c\<lparr>state := pdf_only_state\<rparr>)"

text \<open>
  What \<open>await fetch(...)\<close> gives for one file: the error it rejects with, or a response
  with its status, its status text and what \<open>await response.text()\<close> gives (the error it
  rejects with, or the text of the body).
\<close>

datatype fetch_result =
    Rejected js_error
  | Responded nat string "js_error + string"

definition ok :: "nat \<Rightarrow> bool" where
  \<comment> \<open>\<open>response.ok\<close>: the status is in the range 200 to 299\<close>
  "ok st = (200 \<le> st \<and> st \<le> 299)"

definition or_else :: "json option \<Rightarrow> json \<Rightarrow> json" where
  \<comment> \<open>\<open>x || d\<close>\<close>
  "or_else x d = (case x of None \<Rightarrow> d | Some v \<Rightarrow> if truthy (Some v) then v else d)"

text \<open>The body of the \<open>try\<close> of one loop iteration: the error thrown, or the entry pushed.\<close>

definition try_file :: "platform \<Rightarrow> File \<Rightarrow> fetch_result \<Rightarrow> js_error + FileOutcome" where
  "try_file p file response =
     (case response of
        Rejected err \<Rightarrow> Inl err
      | Responded st statusText text_result \<Rightarrow>
          if \<not> ok st then Inl (new_Error p (''HTTP '' @ show_nat st @ '': '' @ statusText))
          else
            (case text_result of
               Inl err \<Rightarrow> Inl err
             | Inr text \<Rightarrow>
                 if text = [] then Inl (new_Error p ''Empty response from server'')
                 else
                   (case JSON_parse text of
                      None \<Rightarrow> Inl (SyntaxError p text)
                    | Some data \<Rightarrow>
                        if data = JNull then Inl (TypeError p ''data.success'')
                        else if truthy (get_prop data ''success'') then
                          Inr \<lparr>fileName = name file, status = ''success'',
                               result = get_prop data ''result'', outcome_error = None\<rparr>
                        else
                          Inr \<lparr>fileName = name file, status = ''error'', result = None,
                               outcome_error =
                                 Some (or_else (get_prop data ''error'')
                                         (JString (js ''Validation failed'')))\<rparr>)))"

definition file_outcome :: "platform \<Rightarrow> File \<Rightarrow> fetch_result \<Rightarrow> FileOutcome" where
  \<comment> \<open>the \<open>try\<close> with its \<open>catch\<close>: the entry that one iteration pushes\<close>
  "file_outcome p file response =
     (case try_file p file response of
        Inr entry \<Rightarrow> entry
      | Inl err \<Rightarrow>
          \<lparr>fileName = name file, status = ''error'', result = None,
           outcome_error =
             Some (JString (js (if message err = [] then ''Upload failed'' else message err)))\<rparr>)"

text \<open>
  The loop of \<open>handleUpload\<close>, from index \<open>i\<close>, on the state and the local array
  \<open>results\<close>. \<open>fetch i file\<close> is what the \<open>i\<close>-th relay call gives.
\<close>

function upload_loop ::
  "platform \<Rightarrow> (nat \<Rightarrow> File \<Rightarrow> fetch_result) \<Rightarrow> File list \<Rightarrow> nat \<Rightarrow> UploadState \<Rightarrow> FileOutcome list
    \<Rightarrow> UploadState \<times> FileOutcome list" where
  "upload_loop p fetch fs i st rs =
     (if i < length fs then
        let file = fs ! i;
            st' = st\<lparr>currentFile := i + 1\<rparr>;
            rs' = rs @ [file_outcome p file (fetch i file)]
        in upload_loop p fetch fs (i + 1) st' rs'
      else (st, rs))"
  by pat_completeness auto
termination
  by (relation "measure (\<lambda>(p, fetch, fs, i, st, rs). length fs - i)") auto

declare upload_loop.simps [simp del]

definition handleUpload :: "platform \<Rightarrow> (nat \<Rightarrow> File \<Rightarrow> fetch_result) \<Rightarrow> FileUpload \<Rightarrow> FileUpload" where
  "handleUpload p fetch c =
     (if length (files c) = 0 then c
      else
        let st0 = \<lparr>uploading = True, error = None, results = [], currentFile = 0,
                   totalFiles = length (files c)\<rparr>;
            (st, rs) = upload_loop p fetch (files c) 0 st0 []
        in c\<lparr>state := \<lparr>uploading = False, error = None, results = rs, currentFile = 0,
                         totalFiles = 0\<rparr>\<rparr>)"


section \<open>Predicates on inputs\<close>

definition credential_configured :: "env \<Rightarrow> bool" where
  \<comment> \<open>\<open>process.env.ANTHROPIC_API_KEY\<close> is truthy: defined and not the empty string\<close>
  "credential_configured e = (case ANTHROPIC_API_KEY e of None \<Rightarrow> False | Some k \<Rightarrow> k \<noteq> [])"

definition no_file_field :: "Request \<Rightarrow> bool" where
  \<comment> \<open>the body is a form, and none of its entries is named \<open>file\<close>\<close>
  "no_file_field req =
     (case formData req of NotAForm err \<Rightarrow> False | Form entries \<Rightarrow> map_of entries ''file'' = None)"



section \<open>Example inputs\<close>

definition example_platform :: platform where
  "example_platform =
     \<lparr>syntax_error_message = (\<lambda>text. ''Unexpected token''),
      type_error_message = (\<lambda>what. ''Cannot read properties''),
      stack_trace = (\<lambda>msg. Some (''Error: '' @ msg))\<rparr>"

definition example_file :: File where
  "example_file = \<lparr>name = ''invoice.pdf'', type = ''application/pdf'', bytes = [37, 80, 68, 70]\<rparr>"

definition example_services :: "string \<Rightarrow> services" where
  \<comment> \<open>an inference API that answers every call with the given text\<close>
  "example_services reply =
     \<lparr>launchdarkly = (\<lambda>cid. Inr False),
      messages_create = (\<lambda>apiKey f.
         Inr \<lparr>content = [TextBlock reply], usage = \<lparr>input_tokens = 1200, output_tokens = 80\<rparr>\<rparr>)\<rparr>"

definition env_without_key :: env where
  "env_without_key = \<lparr>ANTHROPIC_API_KEY = None, LAUNCHDARKLY_CLIENT_SIDE_ID = None\<rparr>"

definition env_with_key :: env where
  "env_with_key = \<lparr>ANTHROPIC_API_KEY = Some ''sk-ant-test'', LAUNCHDARKLY_CLIENT_SIDE_ID = None\<rparr>"

definition options_request :: Request where
  "options_request = \<lparr>method = ''OPTIONS'', formData = NotAForm \<lparr>message = ''no body'', stack = None\<rparr>\<rparr>"

definition get_request :: Request where
  "get_request = \<lparr>method = ''GET'', formData = NotAForm \<lparr>message = ''no body'', stack = None\<rparr>\<rparr>"

definition post_without_file :: Request where
  "post_without_file = \<lparr>method = ''POST'', formData = Form [(''note'', FormString ''hello'')]\<rparr>"

definition post_with_file :: Request where
  "post_with_file = \<lparr>method = ''POST'', formData = Form [(''file'', FormFile example_file)]\<rparr>"


definition notes_txt :: File where
  "notes_txt = \<lparr>name = ''notes.txt'', type = ''text/plain'', bytes = [104, 105]\<rparr>"

definition pass_body :: string where
  \<open>pass_body = ''{"success":true,"result":{"validationStatus":"PASS","confidence":0.92}}''\<close>

definition example_fetch :: "nat \<Rightarrow> File \<Rightarrow> fetch_result" where
  "example_fetch i f =
     (if i = 1 then Rejected \<lparr>message = ''Failed to fetch'', stack = None\<rparr>
      else Responded 200 ''OK'' (Inr pass_body))"


section \<open>Properties of the relay endpoint\<close>

lemma try_block_no_key:
  "\<not> credential_configured e \<Longrightarrow>
   try_block p sv e req = Inl (new_Error p ''ANTHROPIC_API_KEY not configured'')"
  by (simp add: try_block_def credential_configured_def split: option.splits)

lemma try_block_no_file:
  "credential_configured e \<Longrightarrow> no_file_field req \<Longrightarrow> try_block p sv e req = Inr no_file_response"
  by (simp add: try_block_def credential_configured_def no_file_field_def
      split: option.splits form_body.splits)

text \<open>
  C6. Every \<open>OPTIONS\<close> request is answered with status 200, the body \<open>{ok: true}\<close> and the
  permissive CORS headers, whatever the environment (credential configured or not), the
  services and the rest of the request are.
\<close>

theorem options_always_200:
  assumes "method req = ''OPTIONS''"
  shows "validate_document p sv e req =
           \<lparr>http_status = 200, headers = headers_const, body = JObject [(js ''ok'', JBool True)]\<rparr>
         \<and> map_of headers_const ''Access-Control-Allow-Origin'' = Some ''*''
         \<and> map_of headers_const ''Access-Control-Allow-Headers'' = Some ''Content-Type''
         \<and> map_of headers_const ''Access-Control-Allow-Methods'' = Some ''POST, OPTIONS''"
  using assms by (simp add: validate_document_def respond_def headers_const_def)

theorem options_always_200_witness:
  "method options_request = ''OPTIONS''
   \<and> validate_document example_platform (example_services ''{}'') env_without_key options_request
       = \<lparr>http_status = 200, headers = headers_const, body = JObject [(js ''ok'', JBool True)]\<rparr>"
proof -
  have h: "method options_request = ''OPTIONS''"
    by (simp add: options_request_def)
  show ?thesis
    using h options_always_200 [OF h, of example_platform "example_services ''{}''" env_without_key]
    by simp
qed

text \<open>
  C5. Every \<open>POST\<close> request that arrives while \<open>ANTHROPIC_API_KEY\<close> is not configured is
  answered with status 500 and the body
  \<open>{success: false, error: "ANTHROPIC_API_KEY not configured", details: <stack>}\<close>, whatever
  the form content of the request is.
\<close>

theorem missing_credential_500:
  assumes "method req = ''POST''" and "\<not> credential_configured e"
  shows "http_status (validate_document p sv e req) = 500
       \<and> body (validate_document p sv e req) =
           JObject ([(js ''success'', JBool False),
                     (js ''error'', JString (js ''ANTHROPIC_API_KEY not configured''))]
                    @ (case stack_trace p ''ANTHROPIC_API_KEY not configured'' of
                         None \<Rightarrow> [] | Some tr \<Rightarrow> [(js ''details'', JString (js tr))]))"
  using assms
  by (simp add: validate_document_def try_block_no_key respond_def error_body_def new_Error_def)

theorem missing_credential_500_witness:
  "method post_with_file = ''POST'' \<and> \<not> credential_configured env_without_key
   \<and> http_status (validate_document example_platform (example_services ''{}'') env_without_key
         post_with_file) = 500
   \<and> body (validate_document example_platform (example_services ''{}'') env_without_key
         post_with_file) =
       JObject [(js ''success'', JBool False),
                (js ''error'', JString (js ''ANTHROPIC_API_KEY not configured'')),
                (js ''details'', JString (js ''Error: ANTHROPIC_API_KEY not configured''))]"
proof -
  have h1: "method post_with_file = ''POST''"
    by (simp add: post_with_file_def)
  have h2: "\<not> credential_configured env_without_key"
    by (simp add: credential_configured_def env_without_key_def)
  show ?thesis
    using h1 h2 missing_credential_500 [OF h1 h2, of example_platform "example_services ''{}''"]
    by (simp add: example_platform_def)
qed

text \<open>
  C7. A request whose method is neither \<open>POST\<close> nor \<open>OPTIONS\<close> is answered with status
  405 and the body \<open>{success: false, error: "Method not allowed"}\<close>; a \<open>POST\<close> request
  with the credential configured whose form has no \<open>file\<close> field is answered with status
  400 and the body \<open>{success: false, error: "No file provided"}\<close>.
\<close>

theorem method_405_and_missing_file_400:
  "(method req \<noteq> ''POST'' \<and> method req \<noteq> ''OPTIONS'' \<longrightarrow>
      http_status (validate_document p sv e req) = 405 \<and>
      body (validate_document p sv e req) =
        JObject [(js ''success'', JBool False), (js ''error'', JString (js ''Method not allowed''))])
   \<and> (method req = ''POST'' \<and> credential_configured e \<and> no_file_field req \<longrightarrow>
      http_status (validate_document p sv e req) = 400 \<and>
      body (validate_document p sv e req) =
        JObject [(js ''success'', JBool False), (js ''error'', JString (js ''No file provided''))])"
  by (simp add: validate_document_def try_block_no_file respond_def no_file_response_def)

theorem method_405_and_missing_file_400_witness:
  "(method get_request \<noteq> ''POST'' \<and> method get_request \<noteq> ''OPTIONS'')
   \<and> http_status (validate_document example_platform (example_services ''{}'') env_with_key
         get_request) = 405
   \<and> (method post_without_file = ''POST'' \<and> credential_configured env_with_key
        \<and> no_file_field post_without_file)
   \<and> http_status (validate_document example_platform (example_services ''{}'') env_with_key
         post_without_file) = 400"
proof -
  have h1: "method get_request \<noteq> ''POST'' \<and> method get_request \<noteq> ''OPTIONS''"
    by (simp add: get_request_def)
  have h2: "method post_without_file = ''POST'' \<and> credential_configured env_with_key
        \<and> no_file_field post_without_file"
    by (simp add: post_without_file_def credential_configured_def env_with_key_def no_file_field_def)
  show ?thesis
    using h1 h2
      method_405_and_missing_file_400 [of get_request example_platform "example_services ''{}''"
        env_with_key]
      method_405_and_missing_file_400 [of post_without_file example_platform
        "example_services ''{}''" env_with_key]
    by blast
qed

text \<open>
  C9. The credential check comes before the form is read: a \<open>POST\<close> request that arrives
  while \<open>ANTHROPIC_API_KEY\<close> is not configured and that has no \<open>file\<close> field is answered
  with status 500 and the error \<open>"ANTHROPIC_API_KEY not configured"\<close>, not with the
  missing-file response of status 400.
\<close>

theorem credential_check_first:
  assumes "method req = ''POST''" and "\<not> credential_configured e" and "no_file_field req"
  shows "http_status (validate_document p sv e req) = 500
       \<and> get_prop (body (validate_document p sv e req)) ''error''
           = Some (JString (js ''ANTHROPIC_API_KEY not configured''))
       \<and> http_status (validate_document p sv e req) \<noteq> 400
       \<and> validate_document p sv e req \<noteq> no_file_response"
proof -
  have r: "validate_document p sv e req
           = respond 500 (error_body (new_Error p ''ANTHROPIC_API_KEY not configured''))"
    using assms(1,2) by (simp add: validate_document_def try_block_no_key)
  have "get_prop (error_body (new_Error p ''ANTHROPIC_API_KEY not configured'')) ''error''
          = Some (JString (js ''ANTHROPIC_API_KEY not configured''))"
    by (simp add: get_prop_def error_body_def new_Error_def js_def split: option.splits)
  then show ?thesis
    by (simp add: r respond_def no_file_response_def)
qed

theorem credential_check_first_witness:
  "method post_without_file = ''POST'' \<and> \<not> credential_configured env_without_key
   \<and> no_file_field post_without_file
   \<and> http_status (validate_document example_platform (example_services ''{}'') env_without_key
         post_without_file) = 500"
proof -
  have h1: "method post_without_file = ''POST''"
    by (simp add: post_without_file_def)
  have h2: "\<not> credential_configured env_without_key"
    by (simp add: credential_configured_def env_without_key_def)
  have h3: "no_file_field post_without_file"
    by (simp add: no_file_field_def post_without_file_def)
  show ?thesis
    using h1 h2 h3
      credential_check_first [OF h1 h2 h3, of example_platform "example_services ''{}''"]
    by simp
qed

text \<open>
  C2. When the text of the inference API's reply, after the fences are stripped, is not
  valid JSON, the handler answers with status 200 and the body
  \<open>{success: true, result: {rawResponse: <stripped text>, parseError: <message>}, usage}\<close>
  with a non-empty \<open>parseError\<close>: the parse failure is not a request failure.
\<close>

theorem parse_failure_is_success_envelope:
  assumes "method req = ''POST''"
    and "ANTHROPIC_API_KEY e = Some apiKey" and "apiKey \<noteq> []"
    and "formData req = Form entries" and "map_of entries ''file'' = Some (FormFile f)"
    and "messages_create sv apiKey f = Inr msg"
    and "responseText (content msg) = Some t"
    and "JSON_parse (cleanedText t) = None"
  shows "http_status (validate_document p sv e req) = 200
       \<and> body (validate_document p sv e req) =
           JObject
             [(js ''success'', JBool True),
              (js ''result'',
               JObject [(js ''rawResponse'', JString (js (cleanedText t))),
                        (js ''parseError'', JString (js ''Could not parse JSON response''))]),
              (js ''usage'',
               JObject [(js ''inputTokens'', JNumber (of_nat (input_tokens (usage msg)))),
                        (js ''outputTokens'', JNumber (of_nat (output_tokens (usage msg))))])]
       \<and> js ''Could not parse JSON response'' \<noteq> []"
  using assms
  by (simp add: validate_document_def try_block_def process_file_def success_response_def
      respond_def parse_result_def js_def)

theorem parse_failure_is_success_envelope_witness:
  "method post_with_file = ''POST''
   \<and> ANTHROPIC_API_KEY env_with_key = Some ''sk-ant-test''
   \<and> formData post_with_file = Form [(''file'', FormFile example_file)]
   \<and> JSON_parse (cleanedText ''not json'') = None
   \<and> http_status (validate_document example_platform (example_services ''not json'')
         env_with_key post_with_file) = 200
   \<and> body (validate_document example_platform (example_services ''not json'')
         env_with_key post_with_file) =
       JObject
         [(js ''success'', JBool True),
          (js ''result'',
           JObject [(js ''rawResponse'', JString (js ''not json'')),
                    (js ''parseError'', JString (js ''Could not parse JSON response''))]),
          (js ''usage'',
           JObject [(js ''inputTokens'', JNumber 1200), (js ''outputTokens'', JNumber 80)])]"
proof -
  let ?msg = "\<lparr>content = [TextBlock ''not json''],
               usage = \<lparr>input_tokens = 1200, output_tokens = 80\<rparr>\<rparr>"
  have h1: "method post_with_file = ''POST''"
    by (simp add: post_with_file_def)
  have h2: "ANTHROPIC_API_KEY env_with_key = Some ''sk-ant-test''"
    by (simp add: env_with_key_def)
  have h3: "''sk-ant-test'' \<noteq> []"
    by simp
  have h4: "formData post_with_file = Form [(''file'', FormFile example_file)]"
    by (simp add: post_with_file_def)
  have h5: "map_of [(''file'', FormFile example_file)] ''file'' = Some (FormFile example_file)"
    by simp
  have h6: "messages_create (example_services ''not json'') ''sk-ant-test'' example_file = Inr ?msg"
    by (simp add: example_services_def)
  have h7: "responseText (content ?msg) = Some ''not json''"
    by (simp add: responseText_def)
  have h8: "JSON_parse (cleanedText ''not json'') = None"
    by code_simp
  have c: "cleanedText ''not json'' = ''not json''"
    by code_simp
  show ?thesis
    using h1 h2 h4 h8 parse_failure_is_success_envelope [OF h1 h2 h3 h4 h5 h6 h7 h8, of example_platform]
    by (simp add: c)
qed

text \<open>
  C3. Stripping the fences of the text \<open>```json\n{"a":1}\n```\<close> leaves \<open>{"a":1}\<close>, which
  parses to the object \<open>{"a":1}\<close>; the plain text \<open>{"a":1}\<close> is left unchanged by the
  stripping and parses to the same object.
\<close>

theorem fence_stripping_then_parse:
  \<open>cleanedText (''```json'' @ [LF] @ ''{"a":1}'' @ [LF] @ ''```'') = ''{"a":1}''
   \<and> parse_result (cleanedText (''```json'' @ [LF] @ ''{"a":1}'' @ [LF] @ ''```''))
        = JObject [(js ''a'', JNumber 1)]
   \<and> cleanedText ''{"a":1}'' = ''{"a":1}''
   \<and> parse_result (cleanedText ''{"a":1}'') = JObject [(js ''a'', JNumber 1)]
   \<and> JSON_parse ''{"a":1}'' = Some (JObject [(js ''a'', JNumber 1)])\<close>
  by code_simp

section \<open>Properties of the upload component\<close>












text \<open>
  C10. With an empty file list \<open>handleUpload\<close> returns at once: the whole component state
  (the \<open>UploadState\<close> and the file selection) is left as it was.
\<close>

theorem upload_nothing_is_noop:
  assumes "files c = []"
  shows "handleUpload p fetch c = c"
  using assms by (simp add: handleUpload_def)

theorem upload_nothing_is_noop_witness:
  "files initial_component = []
   \<and> handleUpload example_platform example_fetch initial_component = initial_component"
proof -
  have h: "files initial_component = []"
    by (simp add: initial_component_def)
  show ?thesis
    using h upload_nothing_is_noop [OF h, of example_platform example_fetch] by simp
qed


text \<open>
  C4, as stated, fails: from the initial component, selecting or dropping a PDF together
  with a text file leaves the PDF accepted and no error message set.
\<close>

theorem mixed_selection_counterexample:
  "files initial_component = []
   \<and> notes_txt \<in> set [example_file, notes_txt] \<and> type notes_txt \<noteq> ''application/pdf''
   \<and> files (handleFileChange [example_file, notes_txt] initial_component) = [example_file]
   \<and> error (state (handleFileChange [example_file, notes_txt] initial_component)) = None
   \<and> files (handleDrop [example_file, notes_txt] initial_component) = [example_file]
   \<and> error (state (handleDrop [example_file, notes_txt] initial_component)) = None"
  by (simp add: handleFileChange_def handleDrop_def initial_component_def initial_state_def
      is_pdf_def example_file_def notes_txt_def)

text \<open>
  C4, amended. A selection or drop in which no file has the media type
  \<open>application/pdf\<close> leaves the file selection as it was (empty, if it was empty) and sets
  the error message \<open>Please upload PDF files only\<close>; a selection or drop with at least one
  PDF is accepted in part: the file selection becomes its PDF entries, in order, and no
  error message is set.
\<close>

theorem selection_keeps_pdf_only:
  "((\<forall>f \<in> set selection. \<not> is_pdf f) \<longrightarrow>
      files (handleFileChange selection c) = files c
      \<and> error (state (handleFileChange selection c)) = Some ''Please upload PDF files only''
      \<and> files (handleDrop selection c) = files c
      \<and> error (state (handleDrop selection c)) = Some ''Please upload PDF files only'')
   \<and> ((\<exists>f \<in> set selection. is_pdf f) \<longrightarrow>
      files (handleFileChange selection c) = filter is_pdf selection
      \<and> error (state (handleFileChange selection c)) = None
      \<and> files (handleDrop selection c) = filter is_pdf selection
      \<and> error (state (handleDrop selection c)) = None)"
proof -
  have n: "(\<forall>f \<in> set selection. \<not> is_pdf f) \<Longrightarrow> filter is_pdf selection = []"
    by simp
  have y: "(\<exists>f \<in> set selection. is_pdf f) \<Longrightarrow> filter is_pdf selection \<noteq> []"
    by (simp add: filter_empty_conv)
  show ?thesis
  proof (intro conjI impI)
    assume a: "\<forall>f \<in> set selection. \<not> is_pdf f"
    show "files (handleFileChange selection c) = files c"
      by (simp add: handleFileChange_def n [OF a])
    show "error (state (handleFileChange selection c)) = Some ''Please upload PDF files only''"
      by (simp add: handleFileChange_def n [OF a] pdf_only_state_def)
    show "files (handleDrop selection c) = files c"
      by (simp add: handleDrop_def n [OF a])
    show "error (state (handleDrop selection c)) = Some ''Please upload PDF files only''"
      by (simp add: handleDrop_def n [OF a] pdf_only_state_def)
  next
    assume a: "\<exists>f \<in> set selection. is_pdf f"
    show "files (handleFileChange selection c) = filter is_pdf selection"
      using y [OF a] by (simp add: handleFileChange_def)
    show "error (state (handleFileChange selection c)) = None"
      using y [OF a] by (simp add: handleFileChange_def initial_state_def)
    show "files (handleDrop selection c) = filter is_pdf selection"
      using y [OF a] by (simp add: handleDrop_def)
    show "error (state (handleDrop selection c)) = None"
      using y [OF a] by (simp add: handleDrop_def initial_state_def)
  qed
qed

theorem selection_keeps_pdf_only_witness:
  "\<not> is_pdf notes_txt
   \<and> files (handleFileChange [notes_txt] initial_component) = []
   \<and> error (state (handleFileChange [notes_txt] initial_component))
       = Some ''Please upload PDF files only''
   \<and> is_pdf example_file
   \<and> files (handleFileChange [example_file, notes_txt] initial_component) = [example_file]
   \<and> error (state (handleFileChange [example_file, notes_txt] initial_component)) = None"
proof -
  have p1: "is_pdf example_file" and p2: "\<not> is_pdf notes_txt"
    by (simp_all add: is_pdf_def example_file_def notes_txt_def)
  have h1: "\<forall>f \<in> set [notes_txt]. \<not> is_pdf f"
    using p2 by simp
  have h2: "\<exists>f \<in> set [example_file, notes_txt]. is_pdf f"
    using p1 by simp
  have e: "files initial_component = []"
    by (simp add: initial_component_def)
  have f: "filter is_pdf [example_file, notes_txt] = [example_file]"
    using p1 p2 by simp
  show ?thesis
    using p1 p2 h1 h2 e f
      selection_keeps_pdf_only [of "[notes_txt]" initial_component]
      selection_keeps_pdf_only [of "[example_file, notes_txt]" initial_component]
    by metis
qed

end
